theory Spec2Isabelle
  imports Main "HOL-Library.Word"
begin

unbundle bit_operations_syntax

section \<open>Python values, errors and the I2C bus\<close>

text \<open>
  The driver is dynamically typed: a setter may be handed an integer, a boolean, a
  string or \<open>None\<close>. Python integers are unbounded, hence \<open>int\<close>.
\<close>

datatype pyval = PInt int | PBool bool | PStr string | PNone

text \<open>
  The exceptions the driver can raise: \<open>ValueError\<close> and \<open>RuntimeError\<close> carry their
  message, \<open>IndexError\<close> comes from indexing a list or tuple out of range and
  \<open>StructError\<close> from \<open>struct.pack('<B', v)\<close> with \<open>v\<close> outside \<open>0..255\<close>.
\<close>

datatype py_error = ValueError string | RuntimeError string | IndexError | StructError

text \<open>
  The bus is the external collaborator. Its model keeps the answer of \<open>scan()\<close>, one
  byte per register of the device at address 104, and the list of the calls made so far,
  oldest first. The transport itself never fails in this model.
\<close>

datatype bus_call = Scan | ReadFromMem int nat nat | WriteToMem int nat "8 word"

record i2c_bus =
  devices :: "int list"
  regs :: "nat \<Rightarrow> 8 word"
  calls :: "bus_call list"

type_synonym 'a io = "i2c_bus \<Rightarrow> (py_error + 'a) \<times> i2c_bus"

definition returns :: "'a \<Rightarrow> 'a io" where
  "returns v bus = (Inr v, bus)"

definition raise :: "py_error \<Rightarrow> 'a io" where
  "raise e bus = (Inl e, bus)"

text \<open>Sequencing: an exception of the first statement skips the rest, keeping the bus as it is then.\<close>

definition and_then :: "'a io \<Rightarrow> ('a \<Rightarrow> 'b io) \<Rightarrow> 'b io" where
  "and_then m f bus = (case m bus of (Inl e, bus') \<Rightarrow> (Inl e, bus') | (Inr v, bus') \<Rightarrow> f v bus')"

section \<open>Constants of the module\<close>

definition ADDRESS :: int where "ADDRESS = 104"

definition REGISTER_CONTROL_1 :: nat where "REGISTER_CONTROL_1 = 0x00"
definition REGISTER_CONTROL_2 :: nat where "REGISTER_CONTROL_2 = 0x01"
definition REGISTER_CONTROL_3 :: nat where "REGISTER_CONTROL_3 = 0x02"

definition REGISTER_SECOND :: nat where "REGISTER_SECOND = 0x03"
definition REGISTER_MINUTE :: nat where "REGISTER_MINUTE = 0x04"
definition REGISTER_HOUR :: nat where "REGISTER_HOUR = 0x05"
definition REGISTER_DAY :: nat where "REGISTER_DAY = 0x06"
definition REGISTER_WEEKDAY :: nat where "REGISTER_WEEKDAY = 0x07"
definition REGISTER_MONTH :: nat where "REGISTER_MONTH = 0x08"
definition REGISTER_YEAR :: nat where "REGISTER_YEAR = 0x09"

definition WEEKDAY_STR :: "string list" where
  "WEEKDAY_STR = [''SUN'', ''MON'', ''TUE'', ''WED'', ''THU'', ''FRI'', ''SAT'']"

definition MONTH_STR :: "string list" where
  "MONTH_STR = [''JAN'', ''FEB'', ''MAR'', ''APR'', ''MAY'', ''JUN'',
                ''JUL'', ''AUG'', ''SEP'', ''OCT'', ''NOV'', ''DEC'']"

section \<open>Python built-ins the driver uses\<close>

text \<open>\<open>xs[i]\<close>: a negative index counts from the end, an index out of range raises.\<close>

definition py_index :: "'a list \<Rightarrow> int \<Rightarrow> py_error + 'a" where
  "py_index xs i =
     (if 0 \<le> i \<and> i < int (length xs) then Inr (xs ! nat i)
      else if i < 0 \<and> - int (length xs) \<le> i then Inr (xs ! nat (int (length xs) + i))
      else Inl IndexError)"

text \<open>\<open>xs.index(x)\<close> for an \<open>x\<close> known to be in \<open>xs\<close>: the position of its first occurrence.\<close>

fun list_index :: "'a list \<Rightarrow> 'a \<Rightarrow> int" where
  "list_index [] x = 0"
| "list_index (y # ys) x = (if y = x then 0 else 1 + list_index ys x)"

text \<open>
  \<open>v in range(lo, hi)\<close>: an integer is a member when it lies in the half-open interval, a
  boolean counts as 0 or 1, a string or \<open>None\<close> is equal to no element.
\<close>

fun in_range :: "pyval \<Rightarrow> int \<Rightarrow> int \<Rightarrow> bool" where
  "in_range (PInt v) lo hi = (lo \<le> v \<and> v < hi)"
| "in_range (PBool b) lo hi = (lo \<le> of_bool b \<and> of_bool b < hi)"
| "in_range (PStr s) lo hi = False"
| "in_range PNone lo hi = False"

text \<open>
  The integer a value stands for in \<open>int(v)\<close> and in arithmetic. The driver only gets
  there with a value that passed \<open>in_range\<close>, so an integer or a boolean; the result on a
  string or \<open>None\<close> is never used.
\<close>

fun py_int :: "pyval \<Rightarrow> int" where
  "py_int (PInt v) = v"
| "py_int (PBool b) = of_bool b"
| "py_int (PStr s) = 0"
| "py_int PNone = 0"

text \<open>\<open>divmod(a, 10)\<close> and friends: floor division, as \<open>div\<close> and \<open>mod\<close> on \<open>int\<close>.\<close>

definition divmod :: "int \<Rightarrow> int \<Rightarrow> int \<times> int" where
  "divmod a b = (a div b, a mod b)"

text \<open>Decimal text of an integer, as \<open>str\<close> and \<open>'{}'.format\<close> print it.\<close>

definition digit_char :: "nat \<Rightarrow> char" where
  "digit_char d = ''0123456789'' ! d"

function str_nat :: "nat \<Rightarrow> string" where
  "str_nat n = (if n < 10 then [digit_char n] else str_nat (n div 10) @ [digit_char (n mod 10)])"
  by pat_completeness auto
termination
  by (relation "measure (\<lambda>n. n)") auto

declare str_nat.simps [simp del]

definition str_int :: "int \<Rightarrow> string" where
  "str_int i = (if i < 0 then CHR ''-'' # str_nat (nat (- i)) else str_nat (nat i))"

text \<open>\<open>str\<close> of a list of strings: \<open>['SUN', 'MON']\<close>.\<close>

fun join_repr :: "string list \<Rightarrow> string" where
  "join_repr [] = []"
| "join_repr [s] = [CHR 0x27] @ s @ [CHR 0x27]"
| "join_repr (s # t # ts) = [CHR 0x27] @ s @ [CHR 0x27] @ '', '' @ join_repr (t # ts)"

definition str_list :: "string list \<Rightarrow> string" where
  "str_list xs = ''['' @ join_repr xs @ '']''"

fun py_str :: "pyval \<Rightarrow> string" where
  "py_str (PInt v) = str_int v"
| "py_str (PBool b) = (if b then ''True'' else ''False'')"
| "py_str (PStr s) = s"
| "py_str PNone = ''None''"

section \<open>Register access\<close>

text \<open>
  \<open>__read_register\<close>: one call \<open>readfrom_mem(104, reg, 1)\<close>, the byte unpacked as an
  unsigned integer.
\<close>

definition read_register :: "nat \<Rightarrow> int io" where
  "read_register reg_addr bus =
     (Inr (uint (regs bus reg_addr)),
      bus\<lparr>calls := calls bus @ [ReadFromMem ADDRESS reg_addr 1]\<rparr>)"

text \<open>
  \<open>__write_register\<close>: \<open>struct.pack('<B', value)\<close> raises for a value outside \<open>0..255\<close>,
  before the bus is called; otherwise one call \<open>writeto_mem(104, reg, byte)\<close> overwrites
  the register.
\<close>

definition write_register :: "nat \<Rightarrow> int \<Rightarrow> unit io" where
  "write_register reg_addr v bus =
     (if 0 \<le> v \<and> v \<le> 255
      then (Inr (),
            bus\<lparr>regs := (regs bus)(reg_addr := word_of_int v),
                calls := calls bus @ [WriteToMem ADDRESS reg_addr (word_of_int v)]\<rparr>)
      else (Inl StructError, bus))"

definition enable_24_mode :: "unit io" where
  "enable_24_mode =
     and_then (read_register REGISTER_CONTROL_1) (\<lambda>ctrl1_val.
       write_register REGISTER_CONTROL_1 (ctrl1_val AND 0xF7))"

definition get_bit_12_24 :: "int io" where
  "get_bit_12_24 =
     and_then (read_register REGISTER_CONTROL_1) (\<lambda>ctrl1_val.
       returns (drop_bit 3 (ctrl1_val AND 0x08)))"

section \<open>Control setters and getters\<close>

text \<open>
  \<open>activate is True\<close> and \<open>activate is False\<close> hold for the two booleans only; the
  integer 1 is not \<open>True\<close>.
\<close>

definition battery_switch_over :: "pyval \<Rightarrow> unit io" where
  "battery_switch_over activate =
     and_then (read_register REGISTER_CONTROL_3) (\<lambda>ctrl3_val0.
       let ctrl3_val = ctrl3_val0 AND 0xF7 in
       if activate = PBool True then
         write_register REGISTER_CONTROL_3 (ctrl3_val AND 0x1F)
       else if activate = PBool False then
         write_register REGISTER_CONTROL_3 (ctrl3_val OR 0xE0)
       else raise (ValueError ''battery_switch_over only takes boolean argument''))"

definition vbat_interrupt :: "pyval \<Rightarrow> unit io" where
  "vbat_interrupt activate =
     and_then (read_register REGISTER_CONTROL_3) (\<lambda>ctrl3_val.
       if activate = PBool True then
         write_register REGISTER_CONTROL_3 (ctrl3_val OR 0x01)
       else if activate = PBool False then
         write_register REGISTER_CONTROL_3 (ctrl3_val AND 0xFE)
       else raise (ValueError ''vbat_interrupt only takes boolean argument''))"

definition battery_low :: "bool io" where
  "battery_low =
     and_then (read_register REGISTER_CONTROL_3) (\<lambda>ctrl3_val.
       let BLF_flag = drop_bit 2 (ctrl3_val AND 0x04) in
       if BLF_flag = 1 then returns True else returns False)"

section \<open>Field getters\<close>

definition get_second :: "pyval io" where
  "get_second =
     and_then (read_register REGISTER_SECOND) (\<lambda>second_bcd.
       let tens = drop_bit 4 (second_bcd AND 0x70);
           digit = second_bcd AND 0x0F
       in returns (PInt (10 * tens + digit)))"

definition get_minute :: "pyval io" where
  "get_minute =
     and_then (read_register REGISTER_MINUTE) (\<lambda>minute_bcd.
       let tens = drop_bit 4 (minute_bcd AND 0x70);
           digit = minute_bcd AND 0x0F
       in returns (PInt (10 * tens + digit)))"

definition get_hour :: "pyval io" where
  "get_hour =
     and_then (read_register REGISTER_HOUR) (\<lambda>hour_bcd.
     and_then get_bit_12_24 (\<lambda>bit_12_24.
       if bit_12_24 = 0 then
         let tens = drop_bit 4 (hour_bcd AND 0x30);
             digit = hour_bcd AND 0x0F
         in returns (PInt (10 * tens + digit))
       else
         let am_pm = drop_bit 5 (hour_bcd AND 0x20);
             tens = drop_bit 4 (hour_bcd AND 0x10);
             digit = hour_bcd AND 0x0F
         in returns (PInt (12 * am_pm + 10 * tens + digit))))"

definition get_day :: "pyval io" where
  "get_day =
     and_then (read_register REGISTER_DAY) (\<lambda>day_bcd.
       let tens = drop_bit 4 (day_bcd AND 0x30);
           digit = day_bcd AND 0x0F
       in returns (PInt (10 * tens + digit)))"

definition get_weekday :: "pyval \<Rightarrow> pyval io" where
  "get_weekday as_str =
     and_then (read_register REGISTER_WEEKDAY) (\<lambda>wd_8bits.
       let wd = wd_8bits AND 0x07 in
       if as_str = PBool True then
         (case py_index WEEKDAY_STR wd of
            Inl e \<Rightarrow> raise e
          | Inr name \<Rightarrow> returns (PStr name))
       else returns (PInt wd))"

definition get_month :: "pyval \<Rightarrow> pyval io" where
  "get_month as_str =
     and_then (read_register REGISTER_MONTH) (\<lambda>month_bcd.
       let tens = drop_bit 4 (month_bcd AND 0x10);
           digit = month_bcd AND 0x0F;
           month = 10 * tens + digit
       in if as_str = PBool True then
            (case py_index MONTH_STR (month - 1) of
               Inl e \<Rightarrow> raise e
             | Inr name \<Rightarrow> returns (PStr name))
          else returns (PInt month))"

definition get_year :: "pyval io" where
  "get_year =
     and_then (read_register REGISTER_YEAR) (\<lambda>year_bcd.
       let tens = drop_bit 4 (year_bcd AND 0xF0);
           digit = year_bcd AND 0x0F
       in returns (PInt ((10 * tens + digit) + 1970)))"

section \<open>Field setters\<close>

definition set_second :: "pyval \<Rightarrow> unit io" where
  "set_second second =
     (if \<not> in_range second 0 60 then
        raise (ValueError (''Second value must be in range [0..59] but is '' @ py_str second))
      else
        let (tens, digit) = divmod (py_int second) 10;
            reg_value = push_bit 4 tens OR digit
        in write_register REGISTER_SECOND reg_value)"

definition set_minute :: "pyval \<Rightarrow> unit io" where
  "set_minute minute =
     (if \<not> in_range minute 0 60 then
        raise (ValueError (''Second value must be in range [0..59] but is '' @ py_str minute))
      else
        let (tens, digit) = divmod (py_int minute) 10;
            reg_value = push_bit 4 tens OR digit
        in write_register REGISTER_MINUTE reg_value)"

definition set_hour :: "pyval \<Rightarrow> unit io" where
  "set_hour hour =
     (if \<not> in_range hour 0 24 then
        raise (ValueError (''Hour value for 24h must be in range [1..23] but is '' @ py_str hour))
      else
        and_then get_bit_12_24 (\<lambda>bit_12_24.
          if bit_12_24 = 0 then
            let (tens, digit) = divmod (py_int hour) 10;
                reg_value = push_bit 4 tens OR digit
            in write_register REGISTER_HOUR reg_value
          else
            let meridien = (if py_int hour \<le> 12 then 0 else 1);
                (tens, digit) = (if py_int hour = 12 then divmod 12 10
                                 else divmod (py_int hour mod 12) 10);
                reg_value = push_bit 5 meridien OR push_bit 4 tens OR digit
            in write_register REGISTER_HOUR reg_value))"

definition set_day :: "pyval \<Rightarrow> unit io" where
  "set_day day =
     (if \<not> in_range day 1 31 then
        raise (ValueError (''Day value must be in range [1..12] but is '' @ py_str day))
      else
        let (tens, digit) = divmod (py_int day) 10;
            reg_value = push_bit 4 tens OR digit
        in write_register REGISTER_DAY reg_value)"

text \<open>
  \<open>isinstance(weekday, str)\<close> is the test on the constructor. A name is replaced by its
  position in the table, anything else is taken as it is and range-checked.
\<close>

definition set_weekday :: "pyval \<Rightarrow> unit io" where
  "set_weekday weekday =
     (case (case weekday of
              PStr s \<Rightarrow>
                if s \<in> set WEEKDAY_STR then Inr (PInt (list_index WEEKDAY_STR s))
                else Inl (ValueError (''Weekday as a string can only take the value ''
                                       @ str_list WEEKDAY_STR))
            | _ \<Rightarrow> Inr weekday) of
        Inl e \<Rightarrow> raise e
      | Inr weekday_int \<Rightarrow>
          if \<not> in_range weekday_int 0 7 then
            raise (ValueError (''Weekday value must be in range [0..6] but is ''
                                @ py_str weekday_int))
          else write_register REGISTER_WEEKDAY (py_int weekday_int))"

definition set_month :: "pyval \<Rightarrow> unit io" where
  "set_month month =
     (case (case month of
              PStr s \<Rightarrow>
                if s \<in> set MONTH_STR then Inr (PInt (list_index MONTH_STR s + 1))
                else Inl (ValueError (''Weekday as a string can only take the value ''
                                       @ str_list MONTH_STR))
            | _ \<Rightarrow> Inr month) of
        Inl e \<Rightarrow> raise e
      | Inr month_int \<Rightarrow>
          if \<not> in_range month_int 1 13 then
            raise (ValueError (''Month value must be in range [1..12] but is ''
                                @ py_str month_int))
          else
            let (tens, digit) = divmod (py_int month_int) 10;
                reg_value = push_bit 4 tens OR digit
            in write_register REGISTER_MONTH reg_value)"

definition set_year :: "pyval \<Rightarrow> unit io" where
  "set_year year =
     (if \<not> in_range year 1970 2120 then
        raise (ValueError (''Year must be in range [1970..2129] but is '' @ py_str year))
      else
        let (tens, digit) = divmod (py_int year - 1970) 10;
            reg_value = push_bit 4 tens OR digit
        in write_register REGISTER_YEAR reg_value)"

section \<open>Whole date and time\<close>

text \<open>The tuple \<open>now()\<close> returns, as the list of its eight components.\<close>

definition now :: "pyval list io" where
  "now =
     and_then get_year (\<lambda>year.
     and_then (get_month (PBool False)) (\<lambda>month.
     and_then get_day (\<lambda>day.
     and_then get_hour (\<lambda>hour.
     and_then get_minute (\<lambda>minute.
     and_then get_second (\<lambda>second.
       returns [year, month, day, hour, minute, second, PInt 0, PInt 0]))))))"

text \<open>
  \<open>datetime[i]\<close> on the tuple handed to \<open>set_time\<close>; a tuple that is too short raises
  \<open>IndexError\<close>.
\<close>

definition tuple_item :: "pyval list \<Rightarrow> int \<Rightarrow> pyval io" where
  "tuple_item datetime i = (case py_index datetime i of Inl e \<Rightarrow> raise e | Inr v \<Rightarrow> returns v)"

definition set_time :: "pyval list \<Rightarrow> unit io" where
  "set_time datetime =
     and_then (tuple_item datetime 0) (\<lambda>y.
     and_then (set_year y) (\<lambda>_.
     and_then (tuple_item datetime 1) (\<lambda>mo.
     and_then (set_month mo) (\<lambda>_.
     and_then (tuple_item datetime 2) (\<lambda>d.
     and_then (set_day d) (\<lambda>_.
     and_then (if length datetime > 3
               then and_then (tuple_item datetime 3) set_hour
               else set_hour (PInt 0)) (\<lambda>_.
     and_then (if length datetime > 4
               then and_then (tuple_item datetime 4) set_minute
               else set_minute (PInt 0)) (\<lambda>_.
       if length datetime > 5
       then and_then (tuple_item datetime 5) set_second
       else set_second (PInt 0)))))))))"

section \<open>Initialisation\<close>

text \<open>\<open>scan()\<close> is one bus call and answers the list of the devices present.\<close>

definition scan :: "int list io" where
  "scan bus = (Inr (devices bus), bus\<lparr>calls := calls bus @ [Scan]\<rparr>)"

text \<open>\<open>init(datetime=None, switch_over=True, vbat_interrupt=False)\<close>; \<open>None\<close> for no date.\<close>

definition init :: "pyval list option \<Rightarrow> pyval \<Rightarrow> pyval \<Rightarrow> unit io" where
  "init datetime switch_over vbat_int =
     and_then scan (\<lambda>found.
       if ADDRESS \<notin> set found then
         raise (RuntimeError ''PCF8523 module is not detected in the I2C bus'')
       else
         and_then enable_24_mode (\<lambda>_.
         and_then (battery_switch_over switch_over) (\<lambda>_.
         and_then (vbat_interrupt vbat_int) (\<lambda>_.
           case datetime of
             None \<Rightarrow> returns ()
           | Some dt \<Rightarrow> set_time dt))))"

section \<open>Notions used to state the properties\<close>

text \<open>The bus after one more register read, and after one more register write.\<close>

definition after_read :: "nat \<Rightarrow> i2c_bus \<Rightarrow> i2c_bus" where
  "after_read reg_addr bus = bus\<lparr>calls := calls bus @ [ReadFromMem ADDRESS reg_addr 1]\<rparr>"

definition after_write :: "nat \<Rightarrow> 8 word \<Rightarrow> i2c_bus \<Rightarrow> i2c_bus" where
  "after_write reg_addr w bus =
     bus\<lparr>regs := (regs bus)(reg_addr := w),
         calls := calls bus @ [WriteToMem ADDRESS reg_addr w]\<rparr>"

text \<open>The number whose high nibble is the tens digit of \<open>v\<close> and whose low nibble is its units digit.\<close>

definition bcd :: "int \<Rightarrow> int" where
  "bcd v = 16 * (v div 10) + v mod 10"

text \<open>
  Writing the integer \<open>v\<close> with a setter succeeds, and the getter then reads \<open>v\<close> back
  from the bus the setter left.
\<close>

definition round_trip :: "(pyval \<Rightarrow> unit io) \<Rightarrow> pyval io \<Rightarrow> int \<Rightarrow> i2c_bus \<Rightarrow> bool" where
  "round_trip setter getter v bus =
     (fst (setter (PInt v) bus) = Inr () \<and>
      fst (getter (snd (setter (PInt v) bus))) = Inr (PInt v))"

text \<open>
  The call raises a \<open>ValueError\<close> and leaves the bus, its registers and the record of
  its calls, as \<open>bus'\<close>.
\<close>

definition fails_leaving :: "'a io \<Rightarrow> i2c_bus \<Rightarrow> i2c_bus \<Rightarrow> bool" where
  "fails_leaving op bus bus' =
     (case op bus of
        (Inl (ValueError msg), b) \<Rightarrow> b = bus'
      | _ \<Rightarrow> False)"

text \<open>A bus to run the driver on: the clock answers at its address, every register holds 0.\<close>

definition blank_bus :: i2c_bus where
  "blank_bus = \<lparr>devices = [ADDRESS], regs = (\<lambda>_. 0), calls = []\<rparr>"

section \<open>Arithmetic reading of the bit operations\<close>

lemmas register_defs =
  ADDRESS_def REGISTER_CONTROL_1_def REGISTER_CONTROL_2_def REGISTER_CONTROL_3_def
  REGISTER_SECOND_def REGISTER_MINUTE_def REGISTER_HOUR_def REGISTER_DAY_def
  REGISTER_WEEKDAY_def REGISTER_MONTH_def REGISTER_YEAR_def

text \<open>
  The driver works on Python integers with \<open>&\<close>, \<open>|\<close>, \<open><<\<close> and \<open>>>\<close>. On the values
  that occur, each of them is a division, a remainder or a sum.
\<close>

lemma and_0F: "(x::int) AND 0x0F = x mod 16"
proof -
  have "(0x0F::int) = mask 4" by (simp add: mask_eq_exp_minus_1)
  then have "x AND 0x0F = take_bit 4 x" by (simp add: take_bit_eq_mask)
  then show ?thesis by (simp add: take_bit_eq_mod)
qed

lemma and_07: "(x::int) AND 0x07 = x mod 8"
proof -
  have "(0x07::int) = mask 3" by (simp add: mask_eq_exp_minus_1)
  then have "x AND 0x07 = take_bit 3 x" by (simp add: take_bit_eq_mask)
  then show ?thesis by (simp add: take_bit_eq_mod)
qed

lemma drop_and_field:
  "drop_bit m ((x::int) AND push_bit m (mask k)) = take_bit k (drop_bit m x)"
  by (rule bit_eqI) (auto simp: bit_simps)

lemma field_arith:
  "drop_bit m ((x::int) AND push_bit m (mask k)) = (x div 2 ^ m) mod 2 ^ k"
  unfolding drop_and_field by (simp only: take_bit_eq_mod drop_bit_eq_div)

lemma tens_70: "drop_bit 4 ((x::int) AND 0x70) = (x div 16) mod 8"
  using field_arith [of 4 x 3] by (simp add: mask_eq_exp_minus_1 push_bit_eq_mult)

lemma tens_30: "drop_bit 4 ((x::int) AND 0x30) = (x div 16) mod 4"
  using field_arith [of 4 x 2] by (simp add: mask_eq_exp_minus_1 push_bit_eq_mult)

lemma tens_10: "drop_bit 4 ((x::int) AND 0x10) = (x div 16) mod 2"
  using field_arith [of 4 x 1] by (simp add: mask_eq_exp_minus_1 push_bit_eq_mult)

lemma tens_F0: "drop_bit 4 ((x::int) AND 0xF0) = (x div 16) mod 16"
  using field_arith [of 4 x 4] by (simp add: mask_eq_exp_minus_1 push_bit_eq_mult)

lemma am_pm_20: "drop_bit 5 ((x::int) AND 0x20) = (x div 32) mod 2"
  using field_arith [of 5 x 1] by (simp add: mask_eq_exp_minus_1 push_bit_eq_mult)

lemma bit_08: "drop_bit 3 ((x::int) AND 0x08) = (x div 8) mod 2"
  using field_arith [of 3 x 1] by (simp add: mask_eq_exp_minus_1 push_bit_eq_mult)

lemma pack_add:
  assumes "0 \<le> d" "d < 16"
  shows "push_bit 4 (t::int) OR d = 16 * t + d"
proof -
  have d: "take_bit 4 d = d" using assms by (simp add: take_bit_int_eq_self)
  have "push_bit 4 t + take_bit 4 d = push_bit 4 t OR take_bit 4 d"
    by (rule disjunctive_add) (auto simp: bit_simps)
  then show ?thesis by (simp add: d push_bit_eq_mult)
qed

lemma pack3_add:
  assumes "0 \<le> d" "d < 16" "0 \<le> t" "t < 2"
  shows "push_bit 5 (m::int) OR push_bit 4 t OR d = 32 * m + 16 * t + d"
proof -
  have lo: "push_bit 4 t OR d = 16 * t + d" using assms by (simp add: pack_add)
  have t: "take_bit 5 (16 * t + d) = 16 * t + d"
    using assms by (simp add: take_bit_int_eq_self)
  have "push_bit 5 m + take_bit 5 (16 * t + d) = push_bit 5 m OR take_bit 5 (16 * t + d)"
    by (rule disjunctive_add) (auto simp: bit_simps)
  then have hi: "push_bit 5 m OR (16 * t + d) = push_bit 5 m + (16 * t + d)"
    by (simp only: t)
  show ?thesis
    unfolding lo hi by (simp add: push_bit_eq_mult)
qed

lemma uint_byte: "0 \<le> v \<Longrightarrow> v \<le> 255 \<Longrightarrow> uint (word_of_int v :: 8 word) = v"
  by (simp add: uint_word_of_int)

section \<open>Binary-coded decimal bytes\<close>

lemma bcd_bounds: "0 \<le> v \<Longrightarrow> v < 160 \<Longrightarrow> 0 \<le> bcd v \<and> bcd v \<le> 255"
proof -
  assume a: "0 \<le> v" "v < 160"
  have "0 \<le> v div 10" "v div 10 \<le> 15" "0 \<le> v mod 10" "v mod 10 < 10"
    using a by simp_all
  then show ?thesis unfolding bcd_def by linarith
qed

lemma units_nibble: "0 \<le> (v::int) mod 10 \<and> v mod 10 < 16"
proof -
  have "v mod 10 < 10" by simp
  then show ?thesis by simp
qed

lemma bcd_pack: "push_bit 4 (v div 10) OR (v mod 10) = bcd v"
  unfolding bcd_def using units_nibble [of v] by (intro pack_add) simp_all

lemma bcd_div: "bcd v div 16 = v div 10"
  unfolding bcd_def using units_nibble [of v] by simp

lemma bcd_mod: "bcd v mod 16 = v mod 10"
  unfolding bcd_def using units_nibble [of v] by simp

lemma uint_bcd: "0 \<le> v \<Longrightarrow> v < 160 \<Longrightarrow> uint (word_of_int (bcd v) :: 8 word) = bcd v"
  using bcd_bounds [of v] by (simp add: uint_byte)

section \<open>What one register access does to the bus\<close>

lemma write_register_eq:
  "0 \<le> v \<Longrightarrow> v \<le> 255 \<Longrightarrow>
     write_register r v bus = (Inr (), after_write r (word_of_int v) bus)"
  by (simp add: write_register_def after_write_def)

lemma write_bcd_eq:
  "0 \<le> v \<Longrightarrow> v < 160 \<Longrightarrow>
     write_register r (bcd v) bus = (Inr (), after_write r (word_of_int (bcd v)) bus)"
  using bcd_bounds [of v] by (simp add: write_register_eq)

lemma read_then:
  "and_then (read_register r) f bus = f (uint (regs bus r)) (after_read r bus)"
  by (simp add: and_then_def read_register_def after_read_def)

lemma mode_then:
  "and_then get_bit_12_24 f bus =
     f ((uint (regs bus REGISTER_CONTROL_1) div 8) mod 2) (after_read REGISTER_CONTROL_1 bus)"
  unfolding get_bit_12_24_def bit_08
  by (simp add: and_then_def read_register_def after_read_def returns_def)

lemma regs_after_read [simp]: "regs (after_read r bus) = regs bus"
  by (simp add: after_read_def)

lemma regs_after_write [simp]: "regs (after_write r w bus) = (regs bus)(r := w)"
  by (simp add: after_write_def)

lemma devices_after_read [simp]: "devices (after_read r bus) = devices bus"
  by (simp add: after_read_def)

lemma devices_after_write [simp]: "devices (after_write r w bus) = devices bus"
  by (simp add: after_write_def)

lemma calls_after_read [simp]:
  "calls (after_read r bus) = calls bus @ [ReadFromMem ADDRESS r 1]"
  by (simp add: after_read_def)

lemma calls_after_write [simp]:
  "calls (after_write r w bus) = calls bus @ [WriteToMem ADDRESS r w]"
  by (simp add: after_write_def)

section \<open>What each getter returns\<close>

lemma get_second_eq:
  "get_second bus =
     (Inr (PInt (10 * ((uint (regs bus REGISTER_SECOND) div 16) mod 8)
                 + uint (regs bus REGISTER_SECOND) mod 16)),
      after_read REGISTER_SECOND bus)"
  unfolding get_second_def read_then Let_def tens_70 and_0F returns_def by (rule refl)

lemma get_minute_eq:
  "get_minute bus =
     (Inr (PInt (10 * ((uint (regs bus REGISTER_MINUTE) div 16) mod 8)
                 + uint (regs bus REGISTER_MINUTE) mod 16)),
      after_read REGISTER_MINUTE bus)"
  unfolding get_minute_def read_then Let_def tens_70 and_0F returns_def by (rule refl)

lemma get_day_eq:
  "get_day bus =
     (Inr (PInt (10 * ((uint (regs bus REGISTER_DAY) div 16) mod 4)
                 + uint (regs bus REGISTER_DAY) mod 16)),
      after_read REGISTER_DAY bus)"
  unfolding get_day_def read_then Let_def tens_30 and_0F returns_def by (rule refl)

lemma get_year_eq:
  "get_year bus =
     (Inr (PInt ((10 * ((uint (regs bus REGISTER_YEAR) div 16) mod 16)
                  + uint (regs bus REGISTER_YEAR) mod 16) + 1970)),
      after_read REGISTER_YEAR bus)"
  unfolding get_year_def read_then Let_def tens_F0 and_0F returns_def by (rule refl)

lemma get_month_int_eq:
  "get_month (PBool False) bus =
     (Inr (PInt (10 * ((uint (regs bus REGISTER_MONTH) div 16) mod 2)
                 + uint (regs bus REGISTER_MONTH) mod 16)),
      after_read REGISTER_MONTH bus)"
  unfolding get_month_def read_then Let_def tens_10 and_0F returns_def by simp

lemma get_month_str_eq:
  "get_month (PBool True) bus =
     (case py_index MONTH_STR
             (10 * ((uint (regs bus REGISTER_MONTH) div 16) mod 2)
              + uint (regs bus REGISTER_MONTH) mod 16 - 1) of
        Inl e \<Rightarrow> (Inl e, after_read REGISTER_MONTH bus)
      | Inr name \<Rightarrow> (Inr (PStr name), after_read REGISTER_MONTH bus))"
  unfolding get_month_def read_then Let_def tens_10 and_0F
  by (simp add: returns_def raise_def split: sum.splits)

lemma get_weekday_int_eq:
  "get_weekday (PBool False) bus =
     (Inr (PInt (uint (regs bus REGISTER_WEEKDAY) mod 8)), after_read REGISTER_WEEKDAY bus)"
  unfolding get_weekday_def read_then Let_def and_07 returns_def by simp

lemma get_weekday_str_eq:
  "get_weekday (PBool True) bus =
     (case py_index WEEKDAY_STR (uint (regs bus REGISTER_WEEKDAY) mod 8) of
        Inl e \<Rightarrow> (Inl e, after_read REGISTER_WEEKDAY bus)
      | Inr name \<Rightarrow> (Inr (PStr name), after_read REGISTER_WEEKDAY bus))"
  unfolding get_weekday_def read_then Let_def and_07
  by (simp add: returns_def raise_def split: sum.splits)

lemma get_hour_eq:
  "get_hour bus =
     (Inr (PInt (if (uint (regs bus REGISTER_CONTROL_1) div 8) mod 2 = 0
                 then 10 * ((uint (regs bus REGISTER_HOUR) div 16) mod 4)
                      + uint (regs bus REGISTER_HOUR) mod 16
                 else 12 * ((uint (regs bus REGISTER_HOUR) div 32) mod 2)
                      + 10 * ((uint (regs bus REGISTER_HOUR) div 16) mod 2)
                      + uint (regs bus REGISTER_HOUR) mod 16)),
      after_read REGISTER_CONTROL_1 (after_read REGISTER_HOUR bus))"
  unfolding get_hour_def read_then mode_then Let_def tens_30 tens_10 am_pm_20 and_0F returns_def
  by simp

section \<open>What each setter writes\<close>

lemma register_distinct [simp]:
  "REGISTER_CONTROL_1 \<noteq> REGISTER_CONTROL_2" "REGISTER_CONTROL_1 \<noteq> REGISTER_CONTROL_3"
  "REGISTER_CONTROL_1 \<noteq> REGISTER_SECOND" "REGISTER_CONTROL_1 \<noteq> REGISTER_MINUTE"
  "REGISTER_CONTROL_1 \<noteq> REGISTER_HOUR" "REGISTER_CONTROL_1 \<noteq> REGISTER_DAY"
  "REGISTER_CONTROL_1 \<noteq> REGISTER_WEEKDAY" "REGISTER_CONTROL_1 \<noteq> REGISTER_MONTH"
  "REGISTER_CONTROL_1 \<noteq> REGISTER_YEAR" "REGISTER_CONTROL_2 \<noteq> REGISTER_CONTROL_1"
  "REGISTER_CONTROL_2 \<noteq> REGISTER_CONTROL_3" "REGISTER_CONTROL_2 \<noteq> REGISTER_SECOND"
  "REGISTER_CONTROL_2 \<noteq> REGISTER_MINUTE" "REGISTER_CONTROL_2 \<noteq> REGISTER_HOUR"
  "REGISTER_CONTROL_2 \<noteq> REGISTER_DAY" "REGISTER_CONTROL_2 \<noteq> REGISTER_WEEKDAY"
  "REGISTER_CONTROL_2 \<noteq> REGISTER_MONTH" "REGISTER_CONTROL_2 \<noteq> REGISTER_YEAR"
  "REGISTER_CONTROL_3 \<noteq> REGISTER_CONTROL_1" "REGISTER_CONTROL_3 \<noteq> REGISTER_CONTROL_2"
  "REGISTER_CONTROL_3 \<noteq> REGISTER_SECOND" "REGISTER_CONTROL_3 \<noteq> REGISTER_MINUTE"
  "REGISTER_CONTROL_3 \<noteq> REGISTER_HOUR" "REGISTER_CONTROL_3 \<noteq> REGISTER_DAY"
  "REGISTER_CONTROL_3 \<noteq> REGISTER_WEEKDAY" "REGISTER_CONTROL_3 \<noteq> REGISTER_MONTH"
  "REGISTER_CONTROL_3 \<noteq> REGISTER_YEAR" "REGISTER_SECOND \<noteq> REGISTER_CONTROL_1"
  "REGISTER_SECOND \<noteq> REGISTER_CONTROL_2" "REGISTER_SECOND \<noteq> REGISTER_CONTROL_3"
  "REGISTER_SECOND \<noteq> REGISTER_MINUTE" "REGISTER_SECOND \<noteq> REGISTER_HOUR"
  "REGISTER_SECOND \<noteq> REGISTER_DAY" "REGISTER_SECOND \<noteq> REGISTER_WEEKDAY"
  "REGISTER_SECOND \<noteq> REGISTER_MONTH" "REGISTER_SECOND \<noteq> REGISTER_YEAR"
  "REGISTER_MINUTE \<noteq> REGISTER_CONTROL_1" "REGISTER_MINUTE \<noteq> REGISTER_CONTROL_2"
  "REGISTER_MINUTE \<noteq> REGISTER_CONTROL_3" "REGISTER_MINUTE \<noteq> REGISTER_SECOND"
  "REGISTER_MINUTE \<noteq> REGISTER_HOUR" "REGISTER_MINUTE \<noteq> REGISTER_DAY"
  "REGISTER_MINUTE \<noteq> REGISTER_WEEKDAY" "REGISTER_MINUTE \<noteq> REGISTER_MONTH"
  "REGISTER_MINUTE \<noteq> REGISTER_YEAR" "REGISTER_HOUR \<noteq> REGISTER_CONTROL_1"
  "REGISTER_HOUR \<noteq> REGISTER_CONTROL_2" "REGISTER_HOUR \<noteq> REGISTER_CONTROL_3"
  "REGISTER_HOUR \<noteq> REGISTER_SECOND" "REGISTER_HOUR \<noteq> REGISTER_MINUTE"
  "REGISTER_HOUR \<noteq> REGISTER_DAY" "REGISTER_HOUR \<noteq> REGISTER_WEEKDAY"
  "REGISTER_HOUR \<noteq> REGISTER_MONTH" "REGISTER_HOUR \<noteq> REGISTER_YEAR"
  "REGISTER_DAY \<noteq> REGISTER_CONTROL_1" "REGISTER_DAY \<noteq> REGISTER_CONTROL_2"
  "REGISTER_DAY \<noteq> REGISTER_CONTROL_3" "REGISTER_DAY \<noteq> REGISTER_SECOND"
  "REGISTER_DAY \<noteq> REGISTER_MINUTE" "REGISTER_DAY \<noteq> REGISTER_HOUR"
  "REGISTER_DAY \<noteq> REGISTER_WEEKDAY" "REGISTER_DAY \<noteq> REGISTER_MONTH"
  "REGISTER_DAY \<noteq> REGISTER_YEAR" "REGISTER_WEEKDAY \<noteq> REGISTER_CONTROL_1"
  "REGISTER_WEEKDAY \<noteq> REGISTER_CONTROL_2" "REGISTER_WEEKDAY \<noteq> REGISTER_CONTROL_3"
  "REGISTER_WEEKDAY \<noteq> REGISTER_SECOND" "REGISTER_WEEKDAY \<noteq> REGISTER_MINUTE"
  "REGISTER_WEEKDAY \<noteq> REGISTER_HOUR" "REGISTER_WEEKDAY \<noteq> REGISTER_DAY"
  "REGISTER_WEEKDAY \<noteq> REGISTER_MONTH" "REGISTER_WEEKDAY \<noteq> REGISTER_YEAR"
  "REGISTER_MONTH \<noteq> REGISTER_CONTROL_1" "REGISTER_MONTH \<noteq> REGISTER_CONTROL_2"
  "REGISTER_MONTH \<noteq> REGISTER_CONTROL_3" "REGISTER_MONTH \<noteq> REGISTER_SECOND"
  "REGISTER_MONTH \<noteq> REGISTER_MINUTE" "REGISTER_MONTH \<noteq> REGISTER_HOUR"
  "REGISTER_MONTH \<noteq> REGISTER_DAY" "REGISTER_MONTH \<noteq> REGISTER_WEEKDAY"
  "REGISTER_MONTH \<noteq> REGISTER_YEAR" "REGISTER_YEAR \<noteq> REGISTER_CONTROL_1"
  "REGISTER_YEAR \<noteq> REGISTER_CONTROL_2" "REGISTER_YEAR \<noteq> REGISTER_CONTROL_3"
  "REGISTER_YEAR \<noteq> REGISTER_SECOND" "REGISTER_YEAR \<noteq> REGISTER_MINUTE"
  "REGISTER_YEAR \<noteq> REGISTER_HOUR" "REGISTER_YEAR \<noteq> REGISTER_DAY"
  "REGISTER_YEAR \<noteq> REGISTER_WEEKDAY" "REGISTER_YEAR \<noteq> REGISTER_MONTH"
  by (simp_all add: register_defs)

lemma set_second_eq:
  "0 \<le> v \<Longrightarrow> v < 60 \<Longrightarrow>
     set_second (PInt v) bus = (Inr (), after_write REGISTER_SECOND (word_of_int (bcd v)) bus)"
  by (simp add: set_second_def divmod_def bcd_pack write_bcd_eq)

lemma set_minute_eq:
  "0 \<le> v \<Longrightarrow> v < 60 \<Longrightarrow>
     set_minute (PInt v) bus = (Inr (), after_write REGISTER_MINUTE (word_of_int (bcd v)) bus)"
  by (simp add: set_minute_def divmod_def bcd_pack write_bcd_eq)

lemma set_day_eq:
  "1 \<le> v \<Longrightarrow> v < 31 \<Longrightarrow>
     set_day (PInt v) bus = (Inr (), after_write REGISTER_DAY (word_of_int (bcd v)) bus)"
  by (simp add: set_day_def divmod_def bcd_pack write_bcd_eq)

lemma set_month_eq:
  "1 \<le> v \<Longrightarrow> v < 13 \<Longrightarrow>
     set_month (PInt v) bus = (Inr (), after_write REGISTER_MONTH (word_of_int (bcd v)) bus)"
  by (simp add: set_month_def divmod_def bcd_pack write_bcd_eq)

lemma set_year_eq:
  "1970 \<le> v \<Longrightarrow> v < 2120 \<Longrightarrow>
     set_year (PInt v) bus =
       (Inr (), after_write REGISTER_YEAR (word_of_int (bcd (v - 1970))) bus)"
  by (simp add: set_year_def divmod_def bcd_pack write_bcd_eq)

lemma set_weekday_eq:
  "0 \<le> v \<Longrightarrow> v < 7 \<Longrightarrow>
     set_weekday (PInt v) bus = (Inr (), after_write REGISTER_WEEKDAY (word_of_int v) bus)"
  by (simp add: set_weekday_def write_register_eq)

lemma set_hour_24_eq:
  "0 \<le> h \<Longrightarrow> h < 24 \<Longrightarrow> (uint (regs bus REGISTER_CONTROL_1) div 8) mod 2 = 0 \<Longrightarrow>
     set_hour (PInt h) bus =
       (Inr (), after_write REGISTER_HOUR (word_of_int (bcd h))
                  (after_read REGISTER_CONTROL_1 bus))"
  by (simp add: set_hour_def mode_then divmod_def bcd_pack write_bcd_eq)

lemma hour12_bounds:
  "0 \<le> (if h = 12 then 12 else h mod 12) \<and> (if h = 12 then 12 else h mod (12::int)) \<le> 12"
proof -
  have "0 \<le> h mod 12" by simp
  moreover have "h mod 12 \<le> 12" using pos_mod_bound [of 12 h] by linarith
  ultimately show ?thesis by simp
qed

lemma pack_12h:
  assumes "0 \<le> k" "k \<le> 12"
  shows "push_bit 5 (m::int) OR push_bit 4 (k div 10) OR (k mod 10) = 32 * m + bcd k"
proof -
  have "0 \<le> k div 10" "k div 10 < 2" using assms by simp_all
  then have "push_bit 5 m OR push_bit 4 (k div 10) OR (k mod 10)
               = 32 * m + 16 * (k div 10) + k mod 10"
    using units_nibble [of k] by (intro pack3_add) simp_all
  then show ?thesis by (simp add: bcd_def)
qed

lemma bcd_12h_bounds:
  assumes "0 \<le> k" "k \<le> 12"
  shows "0 \<le> bcd k \<and> bcd k \<le> 25"
proof -
  have "0 \<le> k div 10" "k div 10 \<le> 1" "0 \<le> k mod 10" "k mod 10 < 10"
    using assms by simp_all
  then show ?thesis unfolding bcd_def by linarith
qed

lemma set_hour_12_eq:
  assumes "0 \<le> h" "h < 24" "(uint (regs bus REGISTER_CONTROL_1) div 8) mod 2 \<noteq> 0"
  shows "set_hour (PInt h) bus =
       (Inr (), after_write REGISTER_HOUR
                  (word_of_int (32 * (if h \<le> 12 then 0 else 1)
                                + bcd (if h = 12 then 12 else h mod 12)))
                  (after_read REGISTER_CONTROL_1 bus))"
proof -
  let ?m = "if h \<le> 12 then 0 else 1 :: int"
  let ?k = "if h = 12 then 12 else h mod 12"
  have k: "0 \<le> ?k" "?k \<le> 12" using hour12_bounds [of h] by simp_all
  have p: "push_bit 5 ?m OR push_bit 4 (?k div 10) OR (?k mod 10) = 32 * ?m + bcd ?k"
    using k by (rule pack_12h)
  have "0 \<le> bcd ?k \<and> bcd ?k \<le> 25" using k by (rule bcd_12h_bounds)
  then have b: "0 \<le> 32 * ?m + bcd ?k \<and> 32 * ?m + bcd ?k \<le> 255" by auto
  have "set_hour (PInt h) bus =
          write_register REGISTER_HOUR (push_bit 5 ?m OR push_bit 4 (?k div 10) OR (?k mod 10))
            (after_read REGISTER_CONTROL_1 bus)"
    using assms by (simp add: set_hour_def mode_then divmod_def Let_def)
  then show ?thesis
    using b unfolding p by (simp add: write_register_eq)
qed

lemma mode_bit: "((uint (w :: 8 word) div 8) mod 2 = 0) = (\<not> bit w 3)"
proof -
  have "bit w 3 = bit (uint w) 3" by (simp add: bit_uint_iff)
  also have "\<dots> = odd (uint w div 2 ^ 3)" by (rule bit_iff_odd)
  finally show ?thesis by (simp add: odd_iff_mod_2_eq_one)
qed

section \<open>Writing a field and reading it back\<close>

lemma rt_second: "0 \<le> v \<Longrightarrow> v \<le> 59 \<Longrightarrow> round_trip set_second get_second v bus"
  by (simp add: round_trip_def set_second_eq get_second_eq uint_bcd bcd_div bcd_mod)

lemma rt_minute: "0 \<le> v \<Longrightarrow> v \<le> 59 \<Longrightarrow> round_trip set_minute get_minute v bus"
  by (simp add: round_trip_def set_minute_eq get_minute_eq uint_bcd bcd_div bcd_mod)

lemma rt_day: "1 \<le> v \<Longrightarrow> v \<le> 30 \<Longrightarrow> round_trip set_day get_day v bus"
  by (simp add: round_trip_def set_day_eq get_day_eq uint_bcd bcd_div bcd_mod)

lemma rt_month:
  "1 \<le> v \<Longrightarrow> v \<le> 12 \<Longrightarrow> round_trip set_month (get_month (PBool False)) v bus"
  by (simp add: round_trip_def set_month_eq get_month_int_eq uint_bcd bcd_div bcd_mod)

lemma rt_year: "1970 \<le> v \<Longrightarrow> v \<le> 2119 \<Longrightarrow> round_trip set_year get_year v bus"
  by (simp add: round_trip_def set_year_eq get_year_eq uint_bcd bcd_div bcd_mod)

lemma rt_weekday:
  "0 \<le> v \<Longrightarrow> v \<le> 6 \<Longrightarrow> round_trip set_weekday (get_weekday (PBool False)) v bus"
  by (simp add: round_trip_def set_weekday_eq get_weekday_int_eq uint_byte)

lemma rt_hour_24:
  "0 \<le> v \<Longrightarrow> v \<le> 23 \<Longrightarrow> (uint (regs bus REGISTER_CONTROL_1) div 8) mod 2 = 0
     \<Longrightarrow> round_trip set_hour get_hour v bus"
  by (simp add: round_trip_def set_hour_24_eq get_hour_eq uint_bcd bcd_div bcd_mod)

text \<open>
  C1. For every field and every value of its domain (second and minute 0..59, day 1..30,
  month 1..12, year 1970..2119, weekday 0..6, and hour 0..23 while bit 3 of control
  register 1 is 0, the 24 hour mode), the field's setter succeeds and the field's getter
  then returns the value that was written.
\<close>

theorem field_round_trip:
  "(0 \<le> s \<and> s \<le> 59 \<longrightarrow> round_trip set_second get_second s bus) \<and>
   (0 \<le> mi \<and> mi \<le> 59 \<longrightarrow> round_trip set_minute get_minute mi bus) \<and>
   (1 \<le> d \<and> d \<le> 30 \<longrightarrow> round_trip set_day get_day d bus) \<and>
   (1 \<le> mo \<and> mo \<le> 12 \<longrightarrow> round_trip set_month (get_month (PBool False)) mo bus) \<and>
   (1970 \<le> y \<and> y \<le> 2119 \<longrightarrow> round_trip set_year get_year y bus) \<and>
   (0 \<le> wd \<and> wd \<le> 6 \<longrightarrow> round_trip set_weekday (get_weekday (PBool False)) wd bus) \<and>
   (0 \<le> h \<and> h \<le> 23 \<and> \<not> bit (regs bus REGISTER_CONTROL_1) 3
      \<longrightarrow> round_trip set_hour get_hour h bus)"
  by (simp add: rt_second rt_minute rt_day rt_month rt_year rt_weekday rt_hour_24 mode_bit)

theorem field_round_trip_witness:
  "\<not> bit (regs blank_bus REGISTER_CONTROL_1) 3 \<and>
   round_trip set_second get_second 59 blank_bus \<and>
   round_trip set_minute get_minute 0 blank_bus \<and>
   round_trip set_day get_day 30 blank_bus \<and>
   round_trip set_month (get_month (PBool False)) 12 blank_bus \<and>
   round_trip set_year get_year 2119 blank_bus \<and>
   round_trip set_weekday (get_weekday (PBool False)) 6 blank_bus \<and>
   round_trip set_hour get_hour 23 blank_bus"
  using field_round_trip [of 59 blank_bus 0 30 12 2119 6 23]
  by (simp add: blank_bus_def)

section \<open>Rejected arguments\<close>

lemmas str_eval = str_int_def str_nat.simps digit_char_def

text \<open>
  C2. The field setters at the eleven out-of-domain inputs second=60, minute=60, day=0,
  day=31, month=0, month=13, year=1969, year=2120, weekday=7, hour=24 and hour=-1: each
  call raises and leaves the bus untouched, so no register is written. The error is a
  \<open>ValueError\<close> whose message is the only carrier of field name, value and bound. The
  message of \<open>set_minute\<close> names the field Second, the message of \<open>set_day\<close> gives the
  bound [1..12], the message of \<open>set_hour\<close> gives [1..23] and the message of
  \<open>set_year\<close> gives [1970..2129]: these four do not carry the offending field name or
  the bound that the check enforces.
\<close>

theorem setters_reject_with_message:
  "set_second (PInt 60) bus =
     (Inl (ValueError ''Second value must be in range [0..59] but is 60''), bus) \<and>
   set_minute (PInt 60) bus =
     (Inl (ValueError ''Second value must be in range [0..59] but is 60''), bus) \<and>
   set_day (PInt 0) bus =
     (Inl (ValueError ''Day value must be in range [1..12] but is 0''), bus) \<and>
   set_day (PInt 31) bus =
     (Inl (ValueError ''Day value must be in range [1..12] but is 31''), bus) \<and>
   set_month (PInt 0) bus =
     (Inl (ValueError ''Month value must be in range [1..12] but is 0''), bus) \<and>
   set_month (PInt 13) bus =
     (Inl (ValueError ''Month value must be in range [1..12] but is 13''), bus) \<and>
   set_year (PInt 1969) bus =
     (Inl (ValueError ''Year must be in range [1970..2129] but is 1969''), bus) \<and>
   set_year (PInt 2120) bus =
     (Inl (ValueError ''Year must be in range [1970..2129] but is 2120''), bus) \<and>
   set_weekday (PInt 7) bus =
     (Inl (ValueError ''Weekday value must be in range [0..6] but is 7''), bus) \<and>
   set_hour (PInt 24) bus =
     (Inl (ValueError ''Hour value for 24h must be in range [1..23] but is 24''), bus) \<and>
   set_hour (PInt (- 1)) bus =
     (Inl (ValueError ''Hour value for 24h must be in range [1..23] but is -1''), bus)"
  by (simp add: set_second_def set_minute_def set_day_def set_month_def set_year_def
        set_weekday_def set_hour_def raise_def str_eval)

text \<open>
  C3, as the code has it. An out-of-range value or an unknown weekday or month name makes
  each of the seven field setters raise with the bus exactly as it was: nothing was read
  and nothing was written. \<open>battery_switch_over\<close> and \<open>vbat_interrupt\<close> with an
  argument that is no boolean raise after one read of control register 3, and write
  nothing.
\<close>

theorem validation_precedes_writes:
  "((s < 0 \<or> 59 < s) \<longrightarrow> fails_leaving (set_second (PInt s)) bus bus) \<and>
   ((mi < 0 \<or> 59 < mi) \<longrightarrow> fails_leaving (set_minute (PInt mi)) bus bus) \<and>
   ((h < 0 \<or> 23 < h) \<longrightarrow> fails_leaving (set_hour (PInt h)) bus bus) \<and>
   ((d < 1 \<or> 30 < d) \<longrightarrow> fails_leaving (set_day (PInt d)) bus bus) \<and>
   ((wd < 0 \<or> 6 < wd) \<longrightarrow> fails_leaving (set_weekday (PInt wd)) bus bus) \<and>
   (wn \<notin> set WEEKDAY_STR \<longrightarrow> fails_leaving (set_weekday (PStr wn)) bus bus) \<and>
   ((mo < 1 \<or> 12 < mo) \<longrightarrow> fails_leaving (set_month (PInt mo)) bus bus) \<and>
   (mn \<notin> set MONTH_STR \<longrightarrow> fails_leaving (set_month (PStr mn)) bus bus) \<and>
   ((y < 1970 \<or> 2119 < y) \<longrightarrow> fails_leaving (set_year (PInt y)) bus bus) \<and>
   ((\<forall>b. a \<noteq> PBool b) \<longrightarrow>
      fails_leaving (battery_switch_over a) bus (after_read REGISTER_CONTROL_3 bus)) \<and>
   ((\<forall>b. a \<noteq> PBool b) \<longrightarrow>
      fails_leaving (vbat_interrupt a) bus (after_read REGISTER_CONTROL_3 bus))"
  unfolding battery_switch_over_def vbat_interrupt_def read_then Let_def
  by (auto simp add: fails_leaving_def set_second_def set_minute_def set_day_def set_month_def
        set_year_def set_weekday_def set_hour_def raise_def)

theorem validation_precedes_writes_witness:
  "fails_leaving (set_second (PInt 60)) blank_bus blank_bus \<and>
   fails_leaving (set_minute (PInt 60)) blank_bus blank_bus \<and>
   fails_leaving (set_hour (PInt 24)) blank_bus blank_bus \<and>
   fails_leaving (set_day (PInt 31)) blank_bus blank_bus \<and>
   fails_leaving (set_weekday (PInt 7)) blank_bus blank_bus \<and>
   fails_leaving (set_weekday (PStr ''XYZ'')) blank_bus blank_bus \<and>
   fails_leaving (set_month (PInt 13)) blank_bus blank_bus \<and>
   fails_leaving (set_month (PStr ''XYZ'')) blank_bus blank_bus \<and>
   fails_leaving (set_year (PInt 2120)) blank_bus blank_bus \<and>
   fails_leaving (battery_switch_over (PInt 1)) blank_bus
     (after_read REGISTER_CONTROL_3 blank_bus) \<and>
   fails_leaving (vbat_interrupt (PInt 1)) blank_bus
     (after_read REGISTER_CONTROL_3 blank_bus)"
  using validation_precedes_writes
    [of 60 blank_bus 60 24 31 7 "''XYZ''" 13 "''XYZ''" 2120 "PInt 1"]
  by (simp add: WEEKDAY_STR_def MONTH_STR_def)

text \<open>
  C3 as stated fails: \<open>battery_switch_over(1)\<close> on a bus with no call yet raises its
  \<open>ValueError\<close> with one call made, the read of control register 3.
\<close>

theorem flag_check_after_read_counterexample:
  "fst (battery_switch_over (PInt 1) blank_bus)
     = Inl (ValueError ''battery_switch_over only takes boolean argument'') \<and>
   calls blank_bus = [] \<and>
   calls (snd (battery_switch_over (PInt 1) blank_bus))
     = [ReadFromMem ADDRESS REGISTER_CONTROL_3 1]"
  unfolding battery_switch_over_def read_then Let_def
  by (simp add: raise_def blank_bus_def)

section \<open>Initialisation without the device\<close>

text \<open>
  C7. When the answer of \<open>scan()\<close> does not contain address 104, \<open>init\<close> raises its
  \<open>RuntimeError\<close> (the device-not-found error) and the bus differs from the one before
  only by the record of that one \<open>scan()\<close> call: no register was read or written and
  every register keeps its value.
\<close>

theorem init_absent_device:
  "ADDRESS \<notin> set (devices bus) \<Longrightarrow>
     init datetime switch_over vbat_int bus =
       (Inl (RuntimeError ''PCF8523 module is not detected in the I2C bus''),
        bus\<lparr>calls := calls bus @ [Scan]\<rparr>)"
  by (simp add: init_def and_then_def scan_def raise_def)

theorem init_absent_device_witness:
  "ADDRESS \<notin> set (devices (blank_bus\<lparr>devices := [80, 81]\<rparr>)) \<and>
   init None (PBool True) (PBool False) (blank_bus\<lparr>devices := [80, 81]\<rparr>) =
       (Inl (RuntimeError ''PCF8523 module is not detected in the I2C bus''),
        blank_bus\<lparr>devices := [80, 81], calls := [Scan]\<rparr>)"
  using init_absent_device [of "blank_bus\<lparr>devices := [80, 81]\<rparr>" None "PBool True" "PBool False"]
  by (simp add: blank_bus_def ADDRESS_def)

section \<open>Names of weekdays and months\<close>

lemma mod8_bounds: "0 \<le> (x::int) mod 8 \<and> x mod 8 \<le> 7"
proof -
  have "x mod 8 < 8" by simp
  then show ?thesis by simp
qed

text \<open>
  C9, as the code has it. Whatever byte the weekday register holds, \<open>get_weekday()\<close>
  returns the byte masked with 0x07, an integer from 0 to 7. With \<open>as_str=True\<close> the
  call returns the name at that position of the table, one of the seven names, when
  the masked value is at most 6, and raises \<open>IndexError\<close> when it is 7.
\<close>

theorem weekday_masked_value:
  "fst (get_weekday (PBool False) bus) = Inr (PInt (uint (regs bus REGISTER_WEEKDAY) mod 8)) \<and>
   0 \<le> uint (regs bus REGISTER_WEEKDAY) mod 8 \<and>
   uint (regs bus REGISTER_WEEKDAY) mod 8 \<le> 7 \<and>
   fst (get_weekday (PBool True) bus) =
     (if uint (regs bus REGISTER_WEEKDAY) mod 8 \<le> 6
      then Inr (PStr (WEEKDAY_STR ! nat (uint (regs bus REGISTER_WEEKDAY) mod 8)))
      else Inl IndexError) \<and>
   (if uint (regs bus REGISTER_WEEKDAY) mod 8 \<le> 6
    then WEEKDAY_STR ! nat (uint (regs bus REGISTER_WEEKDAY) mod 8) \<in> set WEEKDAY_STR
    else uint (regs bus REGISTER_WEEKDAY) mod 8 = 7)"
proof -
  let ?w = "uint (regs bus REGISTER_WEEKDAY) mod 8"
  have b: "0 \<le> ?w" "?w \<le> 7"
    using mod8_bounds [of "uint (regs bus REGISTER_WEEKDAY)"] by simp_all
  have len: "length WEEKDAY_STR = 7" by (simp add: WEEKDAY_STR_def)
  have idx: "py_index WEEKDAY_STR ?w =
               (if ?w \<le> 6 then Inr (WEEKDAY_STR ! nat ?w) else Inl IndexError)"
    using b by (simp add: py_index_def len)
  have mem: "?w \<le> 6 \<Longrightarrow> WEEKDAY_STR ! nat ?w \<in> set WEEKDAY_STR"
    using b len by (intro nth_mem) simp
  have seven: "\<not> ?w \<le> 6 \<Longrightarrow> ?w = 7" using b by linarith
  show ?thesis
    using b mem seven by (simp add: get_weekday_int_eq get_weekday_str_eq idx)
qed

text \<open>
  C9 as stated fails: with the byte 7 in the weekday register \<open>get_weekday()\<close> returns
  7, outside 0..6, and \<open>get_weekday(as_str=True)\<close> raises \<open>IndexError\<close>.
\<close>

theorem weekday_seven_counterexample:
  "fst (get_weekday (PBool False) (blank_bus\<lparr>regs := (regs blank_bus)(REGISTER_WEEKDAY := 7)\<rparr>))
     = Inr (PInt 7) \<and>
   fst (get_weekday (PBool True) (blank_bus\<lparr>regs := (regs blank_bus)(REGISTER_WEEKDAY := 7)\<rparr>))
     = Inl IndexError"
  by (simp add: get_weekday_int_eq get_weekday_str_eq py_index_def WEEKDAY_STR_def)

text \<open>
  C10. When the month register decodes to month 0, as the power-on byte 0x00 does,
  \<open>get_month(as_str=True)\<close> raises nothing: the index \<open>month - 1 = -1\<close> selects the
  last entry of the table and the call returns DEC.
\<close>

theorem month_zero_is_dec:
  "fst (get_month (PBool False) bus) = Inr (PInt 0) \<Longrightarrow>
   fst (get_month (PBool True) bus) = Inr (PStr ''DEC'')"
  by (simp add: get_month_int_eq get_month_str_eq py_index_def MONTH_STR_def)

theorem month_zero_is_dec_witness:
  "regs blank_bus REGISTER_MONTH = 0x00 \<and>
   fst (get_month (PBool False) blank_bus) = Inr (PInt 0) \<and>
   fst (get_month (PBool True) blank_bus) = Inr (PStr ''DEC'')"
proof -
  have h: "fst (get_month (PBool False) blank_bus) = Inr (PInt 0)"
    by (simp add: get_month_int_eq blank_bus_def)
  show ?thesis
    using h month_zero_is_dec [OF h] by (simp add: blank_bus_def)
qed

section \<open>Battery switch-over\<close>

lemma ctrl3_on_bounds:
  "0 \<le> (uint (w::8 word) AND 0xF7) AND 0x1F \<and> (uint w AND 0xF7) AND 0x1F \<le> 255"
proof -
  have "(uint w AND 0xF7) AND 0x1F \<le> 0x1F" by (rule AND_upper2) simp
  then show ?thesis by simp
qed

lemma ctrl3_off_bounds:
  "0 \<le> (uint (w::8 word) AND 0xF7) OR 0xE0 \<and> (uint w AND 0xF7) OR 0xE0 \<le> 255"
proof -
  have "uint w AND 0xF7 \<le> 0xF7" by (rule AND_upper2) simp
  then have a: "uint w AND 0xF7 < 2 ^ 8" by simp
  have "0 \<le> uint w AND 0xF7" by simp
  then have "(uint w AND 0xF7) OR 0xE0 < 2 ^ 8"
    using a by (intro OR_upper) simp_all
  then show ?thesis by simp
qed

lemma battery_switch_over_on:
  "battery_switch_over (PBool True) bus =
     (Inr (), after_write REGISTER_CONTROL_3
                (word_of_int ((uint (regs bus REGISTER_CONTROL_3) AND 0xF7) AND 0x1F))
                (after_read REGISTER_CONTROL_3 bus))"
  unfolding battery_switch_over_def read_then Let_def
  using ctrl3_on_bounds [of "regs bus REGISTER_CONTROL_3"]
  by (simp add: write_register_eq)

lemma battery_switch_over_off:
  "battery_switch_over (PBool False) bus =
     (Inr (), after_write REGISTER_CONTROL_3
                (word_of_int ((uint (regs bus REGISTER_CONTROL_3) AND 0xF7) OR 0xE0))
                (after_read REGISTER_CONTROL_3 bus))"
  unfolding battery_switch_over_def read_then Let_def
  using ctrl3_off_bounds [of "regs bus REGISTER_CONTROL_3"]
  by (simp add: write_register_eq)

text \<open>
  C4. For each boolean \<open>b\<close> and each prior byte of control register 3,
  \<open>battery_switch_over(b)\<close> is one read of control register 3 followed by one write
  of it. In the byte written, bit 3 (the interrupt flag) is clear, bits 5, 6 and 7 are
  all clear when \<open>b\<close> is true and all set when \<open>b\<close> is false, and bits 0, 1, 2 and 4
  are as they were before the call.
\<close>

theorem battery_switch_over_bits:
  "\<exists>w'. battery_switch_over (PBool b) bus =
          (Inr (), after_write REGISTER_CONTROL_3 w' (after_read REGISTER_CONTROL_3 bus)) \<and>
        \<not> bit w' 3 \<and>
        bit w' 5 = (\<not> b) \<and> bit w' 6 = (\<not> b) \<and> bit w' 7 = (\<not> b) \<and>
        bit w' 0 = bit (regs bus REGISTER_CONTROL_3) 0 \<and>
        bit w' 1 = bit (regs bus REGISTER_CONTROL_3) 1 \<and>
        bit w' 2 = bit (regs bus REGISTER_CONTROL_3) 2 \<and>
        bit w' 4 = bit (regs bus REGISTER_CONTROL_3) 4"
proof (cases b)
  case True
  then show ?thesis
    by (intro exI [of _ "word_of_int ((uint (regs bus REGISTER_CONTROL_3) AND 0xF7) AND 0x1F)"])
       (simp add: battery_switch_over_on bit_simps)
next
  case False
  then show ?thesis
    by (intro exI [of _ "word_of_int ((uint (regs bus REGISTER_CONTROL_3) AND 0xF7) OR 0xE0)"])
       (simp add: battery_switch_over_off bit_simps)
qed

section \<open>The hour in 12 hour mode\<close>

lemma decode_12h_generic:
  assumes "0 \<le> k" "k \<le> 12" "m = 0 \<or> m = 1"
  shows "12 * (((32 * m + bcd k) div 32) mod 2) + 10 * (((32 * m + bcd k) div 16) mod 2)
       + (32 * m + bcd k) mod 16 = 12 * m + k"
proof -
  have b: "0 \<le> bcd k" "bcd k < 32" using bcd_12h_bounds [OF assms(1,2)] by simp_all
  have t: "0 \<le> k div 10" "k div 10 < 2" using assms by simp_all
  have d32: "(32 * m + bcd k) div 32 = m" using b by simp
  have "(32 * m + bcd k) div 16 = (16 * (2 * m) + bcd k) div 16" by simp
  also have "\<dots> = 2 * m + bcd k div 16" by (simp only: div_mult_self2 [of 16 "bcd k" "2 * m"])
  finally have d16: "(32 * m + bcd k) div 16 = 2 * m + k div 10" by (simp add: bcd_div)
  have "(32 * m + bcd k) mod 16 = (16 * (2 * m) + bcd k) mod 16" by simp
  also have "\<dots> = bcd k mod 16" by (simp only: mod_mult_self4)
  finally have m16: "(32 * m + bcd k) mod 16 = k mod 10" by (simp add: bcd_mod)
  have m2: "m mod 2 = m" using assms(3) by auto
  have t2: "(2 * m + k div 10) mod 2 = k div 10" using t by simp
  show ?thesis unfolding d32 d16 m16 m2 t2 by simp
qed

lemma hour12_sum:
  assumes "0 \<le> h" "h \<le> 23"
  shows "12 * (if h \<le> 12 then 0 else 1) + (if h = 12 then 12 else h mod 12) = (h::int)"
proof (cases "h \<le> 12")
  case True
  then show ?thesis using assms by (cases "h = 12") simp_all
next
  case False
  then have "0 \<le> h - 12" "h - 12 < 12" using assms by simp_all
  then have "(h - 12) mod 12 = h - 12" by (rule mod_pos_pos_trivial)
  moreover have "(h - 12) mod 12 = h mod 12" by (rule minus_mod_self2)
  ultimately show ?thesis using False by simp
qed

lemma rt_hour_12:
  assumes "0 \<le> h" "h \<le> 23" "(uint (regs bus REGISTER_CONTROL_1) div 8) mod 2 \<noteq> 0"
  shows "round_trip set_hour get_hour h bus"
proof -
  let ?m = "if h \<le> 12 then 0 else 1 :: int"
  let ?k = "if h = 12 then 12 else h mod 12"
  have k: "0 \<le> ?k" "?k \<le> 12" using hour12_bounds [of h] by simp_all
  have "0 \<le> bcd ?k \<and> bcd ?k \<le> 25" using k by (rule bcd_12h_bounds)
  then have b: "0 \<le> 32 * ?m + bcd ?k" "32 * ?m + bcd ?k \<le> 255" by auto
  have u: "uint (word_of_int (32 * ?m + bcd ?k) :: 8 word) = 32 * ?m + bcd ?k"
    using b by (rule uint_byte)
  have dec: "12 * (((32 * ?m + bcd ?k) div 32) mod 2) + 10 * (((32 * ?m + bcd ?k) div 16) mod 2)
       + (32 * ?m + bcd ?k) mod 16 = 12 * ?m + ?k"
    using k by (intro decode_12h_generic) simp_all
  have sum: "12 * ?m + ?k = h" using assms(1,2) by (rule hour12_sum)
  have s: "set_hour (PInt h) bus =
       (Inr (), after_write REGISTER_HOUR (word_of_int (32 * ?m + bcd ?k))
                  (after_read REGISTER_CONTROL_1 bus))"
    using assms by (intro set_hour_12_eq) simp_all
  show ?thesis
    unfolding round_trip_def s get_hour_eq
    using assms(3) by (simp only: fst_conv snd_conv regs_after_write regs_after_read
         fun_upd_same fun_upd_other register_distinct u dec sum if_False simp_thms)
qed

lemma rt_hour:
  "0 \<le> h \<Longrightarrow> h \<le> 23 \<Longrightarrow> round_trip set_hour get_hour h bus"
  by (cases "(uint (regs bus REGISTER_CONTROL_1) div 8) mod 2 = 0")
     (simp_all add: rt_hour_24 rt_hour_12)

text \<open>
  C8. While bit 3 of control register 1 is 1 (12 hour mode), \<open>set_hour(h)\<close> for
  \<open>h\<close> in 0..23 writes to the hour register the byte
  \<open>(meridiem << 5) | (tens << 4) | units\<close>, where meridiem is 0 for \<open>h \<le> 12\<close> and 1
  otherwise, and tens and units are the two decimal digits of the hour of 12, which is 12
  for \<open>h = 12\<close> and \<open>h mod 12\<close> otherwise; the three fields do not overlap, so the
  byte is \<open>32 * meridiem + 16 * tens + units\<close>. \<open>get_hour\<close> reads the hour byte and
  returns 12 times its bit 5 plus 10 times its bit 4 plus its low nibble.
\<close>

theorem hour_12h_mode:
  fixes h :: int and bus :: i2c_bus
  defines "meridiem \<equiv> (if h \<le> 12 then 0 else 1)"
    and "hour_of_12 \<equiv> (if h = 12 then 12 else h mod 12)"
    and "byte \<equiv> uint (regs bus REGISTER_HOUR)"
  assumes "bit (regs bus REGISTER_CONTROL_1) 3" and "0 \<le> h" and "h \<le> 23"
  shows "set_hour (PInt h) bus =
           (Inr (), after_write REGISTER_HOUR
                      (word_of_int (push_bit 5 meridiem OR push_bit 4 (hour_of_12 div 10)
                                    OR (hour_of_12 mod 10)))
                      (after_read REGISTER_CONTROL_1 bus)) \<and>
         push_bit 5 meridiem OR push_bit 4 (hour_of_12 div 10) OR (hour_of_12 mod 10)
           = 32 * meridiem + 16 * (hour_of_12 div 10) + hour_of_12 mod 10 \<and>
         fst (get_hour bus) =
           Inr (PInt (12 * ((byte div 32) mod 2) + 10 * ((byte div 16) mod 2) + byte mod 16))"
proof -
  have mode: "(uint (regs bus REGISTER_CONTROL_1) div 8) mod 2 \<noteq> 0"
    using assms(4) by (simp add: mode_bit)
  have k: "0 \<le> hour_of_12" "hour_of_12 \<le> 12"
    using hour12_bounds [of h] by (simp_all add: hour_of_12_def)
  have p: "push_bit 5 meridiem OR push_bit 4 (hour_of_12 div 10) OR (hour_of_12 mod 10)
             = 32 * meridiem + bcd hour_of_12"
    using k by (rule pack_12h)
  have s: "set_hour (PInt h) bus =
       (Inr (), after_write REGISTER_HOUR (word_of_int (32 * meridiem + bcd hour_of_12))
                  (after_read REGISTER_CONTROL_1 bus))"
    unfolding meridiem_def hour_of_12_def
    using assms(5,6) mode by (intro set_hour_12_eq) simp_all
  have g: "fst (get_hour bus) =
           Inr (PInt (12 * ((byte div 32) mod 2) + 10 * ((byte div 16) mod 2) + byte mod 16))"
    unfolding get_hour_eq byte_def using mode by simp
  show ?thesis
    unfolding p s using g by (simp add: bcd_def)
qed

theorem hour_12h_mode_witness:
  "bit (regs (blank_bus\<lparr>regs := (regs blank_bus)(REGISTER_CONTROL_1 := 0x08, REGISTER_HOUR := 0x31)\<rparr>)
         REGISTER_CONTROL_1) 3 \<and>
   set_hour (PInt 23)
       (blank_bus\<lparr>regs := (regs blank_bus)(REGISTER_CONTROL_1 := 0x08, REGISTER_HOUR := 0x31)\<rparr>) =
     (Inr (), after_write REGISTER_HOUR 0x31
                (after_read REGISTER_CONTROL_1
                   (blank_bus\<lparr>regs := (regs blank_bus)(REGISTER_CONTROL_1 := 0x08,
                                                        REGISTER_HOUR := 0x31)\<rparr>))) \<and>
   fst (get_hour
         (blank_bus\<lparr>regs := (regs blank_bus)(REGISTER_CONTROL_1 := 0x08, REGISTER_HOUR := 0x31)\<rparr>))
     = Inr (PInt 23)"
  using hour_12h_mode
    [of "blank_bus\<lparr>regs := (regs blank_bus)(REGISTER_CONTROL_1 := 0x08, REGISTER_HOUR := 0x31)\<rparr>" 23]
  by simp

section \<open>Setting and reading the whole date and time\<close>

lemma tuple_item_eq:
  "0 \<le> i \<Longrightarrow> i < int (length t) \<Longrightarrow> tuple_item t i bus = (Inr (t ! nat i), bus)"
  by (simp add: tuple_item_def py_index_def returns_def Let_def)

lemma set_hour_eq:
  assumes "0 \<le> h" "h \<le> 23"
  shows "set_hour (PInt h) bus =
       (Inr (), after_write REGISTER_HOUR
                  (word_of_int (if (uint (regs bus REGISTER_CONTROL_1) div 8) mod 2 = 0 then bcd h
                                else 32 * (if h \<le> 12 then 0 else 1)
                                     + bcd (if h = 12 then 12 else h mod 12)))
                  (after_read REGISTER_CONTROL_1 bus))"
proof (cases "(uint (regs bus REGISTER_CONTROL_1) div 8) mod 2 = 0")
  case True
  then show ?thesis using assms by (simp add: set_hour_24_eq)
next
  case False
  then show ?thesis using assms by (simp add: set_hour_12_eq)
qed

lemma optional_item:
  assumes "i = int n" "(if n < length t then t ! n else PInt 0) = PInt v"
  shows "(if n < length t then and_then (tuple_item t i) setter else setter (PInt 0)) bus
           = setter (PInt v) bus"
proof (cases "n < length t")
  case True
  then have "tuple_item t i bus = (Inr (t ! n), bus)"
    using assms(1) tuple_item_eq [of i t bus] by simp
  then show ?thesis using True assms(2) by (simp add: and_then_def)
next
  case False
  then show ?thesis using assms(2) by simp
qed

lemma set_time_eq:
  assumes len: "3 \<le> length t"
    and y: "t ! 0 = PInt y" "1970 \<le> y" "y \<le> 2119"
    and mo: "t ! 1 = PInt mo" "1 \<le> mo" "mo \<le> 12"
    and d: "t ! 2 = PInt d" "1 \<le> d" "d \<le> 30"
    and h: "(if 3 < length t then t ! 3 else PInt 0) = PInt h" "0 \<le> h" "h \<le> 23"
    and mi: "(if 4 < length t then t ! 4 else PInt 0) = PInt mi" "0 \<le> mi" "mi \<le> 59"
    and s: "(if 5 < length t then t ! 5 else PInt 0) = PInt s" "0 \<le> s" "s \<le> 59"
  shows "set_time t bus =
     (Inr (),
      after_write REGISTER_SECOND (word_of_int (bcd s))
       (after_write REGISTER_MINUTE (word_of_int (bcd mi))
         (after_write REGISTER_HOUR
            (word_of_int (if (uint (regs bus REGISTER_CONTROL_1) div 8) mod 2 = 0 then bcd h
                          else 32 * (if h \<le> 12 then 0 else 1)
                               + bcd (if h = 12 then 12 else h mod 12)))
           (after_read REGISTER_CONTROL_1
             (after_write REGISTER_DAY (word_of_int (bcd d))
               (after_write REGISTER_MONTH (word_of_int (bcd mo))
                 (after_write REGISTER_YEAR (word_of_int (bcd (y - 1970))) bus)))))))"
proof -
  let ?b1 = "after_write REGISTER_YEAR (word_of_int (bcd (y - 1970))) bus"
  let ?b2 = "after_write REGISTER_MONTH (word_of_int (bcd mo)) ?b1"
  let ?b3 = "after_write REGISTER_DAY (word_of_int (bcd d)) ?b2"
  let ?hb = "word_of_int (if (uint (regs bus REGISTER_CONTROL_1) div 8) mod 2 = 0 then bcd h
                          else 32 * (if h \<le> 12 then 0 else 1)
                               + bcd (if h = 12 then 12 else h mod 12)) :: 8 word"
  let ?b4 = "after_write REGISTER_HOUR ?hb (after_read REGISTER_CONTROL_1 ?b3)"
  let ?b5 = "after_write REGISTER_MINUTE (word_of_int (bcd mi)) ?b4"
  have ne: "t \<noteq> []" using len by auto
  have i0: "tuple_item t 0 bus = (Inr (PInt y), bus)"
    using ne y(1) tuple_item_eq [of 0 t bus] by simp
  have i1: "tuple_item t 1 ?b1 = (Inr (PInt mo), ?b1)"
    using len mo(1) tuple_item_eq [of 1 t ?b1] by simp
  have i2: "tuple_item t 2 ?b2 = (Inr (PInt d), ?b2)"
    using len d(1) tuple_item_eq [of 2 t ?b2] by simp
  have sy: "set_year (PInt y) bus = (Inr (), ?b1)" using y by (intro set_year_eq) simp_all
  have sm: "set_month (PInt mo) ?b1 = (Inr (), ?b2)" using mo by (intro set_month_eq) simp_all
  have sd: "set_day (PInt d) ?b2 = (Inr (), ?b3)" using d by (intro set_day_eq) simp_all
  have oh: "(if 3 < length t then and_then (tuple_item t 3) set_hour else set_hour (PInt 0)) ?b3
              = set_hour (PInt h) ?b3"
    by (rule optional_item [where n = 3, OF _ h(1)]) simp
  have sh: "set_hour (PInt h) ?b3 = (Inr (), ?b4)"
    using set_hour_eq [OF h(2,3), of ?b3] by simp
  have om: "(if 4 < length t then and_then (tuple_item t 4) set_minute else set_minute (PInt 0)) ?b4
              = set_minute (PInt mi) ?b4"
    by (rule optional_item [where n = 4, OF _ mi(1)]) simp
  have smi: "set_minute (PInt mi) ?b4 = (Inr (), ?b5)" using mi by (intro set_minute_eq) simp_all
  have os: "(if 5 < length t then and_then (tuple_item t 5) set_second else set_second (PInt 0)) ?b5
              = set_second (PInt s) ?b5"
    by (rule optional_item [where n = 5, OF _ s(1)]) simp
  have ss: "set_second (PInt s) ?b5 = (Inr (), after_write REGISTER_SECOND (word_of_int (bcd s)) ?b5)"
    using s by (intro set_second_eq) simp_all
  show ?thesis
    unfolding set_time_def
    by (simp only: and_then_def i0 sy i1 sm i2 sd oh sh om smi os ss prod.case sum.case)
qed


lemma now_values:
  assumes "fst (get_year bus) = Inr vy" "fst (get_month (PBool False) bus) = Inr vmo"
    "fst (get_day bus) = Inr vd" "fst (get_hour bus) = Inr vh"
    "fst (get_minute bus) = Inr vmi" "fst (get_second bus) = Inr vs"
  shows "fst (now bus) = Inr [vy, vmo, vd, vh, vmi, vs, PInt 0, PInt 0]"
  using assms
  by (auto simp add: now_def and_then_def get_year_eq get_month_int_eq get_day_eq get_hour_eq
        get_minute_eq get_second_eq returns_def split: if_splits)

lemma get_hour_frame:
  "regs b1 REGISTER_HOUR = regs b2 REGISTER_HOUR \<Longrightarrow>
   regs b1 REGISTER_CONTROL_1 = regs b2 REGISTER_CONTROL_1 \<Longrightarrow>
   fst (get_hour b1) = fst (get_hour b2)"
  by (simp add: get_hour_eq)

lemma now_after_set_time:
  assumes len: "3 \<le> length t"
    and y: "t ! 0 = PInt y" "1970 \<le> y" "y \<le> 2119"
    and mo: "t ! 1 = PInt mo" "1 \<le> mo" "mo \<le> 12"
    and d: "t ! 2 = PInt d" "1 \<le> d" "d \<le> 30"
    and h: "(if 3 < length t then t ! 3 else PInt 0) = PInt h" "0 \<le> h" "h \<le> 23"
    and mi: "(if 4 < length t then t ! 4 else PInt 0) = PInt mi" "0 \<le> mi" "mi \<le> 59"
    and s: "(if 5 < length t then t ! 5 else PInt 0) = PInt s" "0 \<le> s" "s \<le> 59"
  shows "fst (now (snd (set_time t bus))) =
           Inr [PInt y, PInt mo, PInt d, PInt h, PInt mi, PInt s, PInt 0, PInt 0]"
proof -
  let ?b3 = "after_write REGISTER_DAY (word_of_int (bcd d))
               (after_write REGISTER_MONTH (word_of_int (bcd mo))
                 (after_write REGISTER_YEAR (word_of_int (bcd (y - 1970))) bus))"
  let ?hb = "word_of_int (if (uint (regs bus REGISTER_CONTROL_1) div 8) mod 2 = 0 then bcd h
                          else 32 * (if h \<le> 12 then 0 else 1)
                               + bcd (if h = 12 then 12 else h mod 12)) :: 8 word"
  let ?b4 = "after_write REGISTER_HOUR ?hb (after_read REGISTER_CONTROL_1 ?b3)"
  let ?B = "after_write REGISTER_SECOND (word_of_int (bcd s))
              (after_write REGISTER_MINUTE (word_of_int (bcd mi)) ?b4)"
  have st: "set_time t bus = (Inr (), ?B)"
    using assms by (rule set_time_eq)
  have gy: "fst (get_year ?B) = Inr (PInt y)"
    using y by (simp add: get_year_eq uint_bcd bcd_div bcd_mod)
  have gmo: "fst (get_month (PBool False) ?B) = Inr (PInt mo)"
    using mo by (simp add: get_month_int_eq uint_bcd bcd_div bcd_mod)
  have gd: "fst (get_day ?B) = Inr (PInt d)"
    using d by (simp add: get_day_eq uint_bcd bcd_div bcd_mod)
  have gmi: "fst (get_minute ?B) = Inr (PInt mi)"
    using mi by (simp add: get_minute_eq uint_bcd bcd_div bcd_mod)
  have gs: "fst (get_second ?B) = Inr (PInt s)"
    using s by (simp add: get_second_eq uint_bcd bcd_div bcd_mod)
  have "set_hour (PInt h) ?b3 = (Inr (), ?b4)"
    using set_hour_eq [OF h(2,3), of ?b3] by simp
  then have "fst (get_hour ?b4) = Inr (PInt h)"
    using rt_hour [OF h(2,3), of ?b3] by (simp add: round_trip_def)
  moreover have "fst (get_hour ?B) = fst (get_hour ?b4)"
    by (rule get_hour_frame) simp_all
  ultimately have gh: "fst (get_hour ?B) = Inr (PInt h)" by simp
  show ?thesis
    unfolding st snd_conv by (rule now_values [OF gy gmo gd gh gmi gs])
qed

text \<open>
  C6. For every tuple \<open>t\<close> of at least three items whose year, month and day are valid,
  and whose items at positions 3, 4 and 5, where the tuple has them, are a valid hour,
  minute and second, \<open>set_time(t)\<close> succeeds. It makes six register writes, in the order
  year, month, day, hour, minute, second (with the read of the mode bit before the hour),
  and \<open>now()\<close> afterwards reads back the year \<open>t[0]\<close>, the month \<open>t[1]\<close>, the day
  \<open>t[2]\<close>, and for hour, minute and second the items at positions 3, 4 and 5 when the
  tuple is long enough and 0 for each one that is missing.
\<close>

theorem set_time_fields:
  assumes "3 \<le> length t"
    and "t ! 0 = PInt y" and "1970 \<le> y" and "y \<le> 2119"
    and "t ! 1 = PInt mo" and "1 \<le> mo" and "mo \<le> 12"
    and "t ! 2 = PInt d" and "1 \<le> d" and "d \<le> 30"
    and "(if 3 < length t then t ! 3 else PInt 0) = PInt h" and "0 \<le> h" and "h \<le> 23"
    and "(if 4 < length t then t ! 4 else PInt 0) = PInt mi" and "0 \<le> mi" and "mi \<le> 59"
    and "(if 5 < length t then t ! 5 else PInt 0) = PInt s" and "0 \<le> s" and "s \<le> 59"
  shows "fst (set_time t bus) = Inr () \<and>
         calls (snd (set_time t bus)) = calls bus @
           [WriteToMem ADDRESS REGISTER_YEAR (regs (snd (set_time t bus)) REGISTER_YEAR),
            WriteToMem ADDRESS REGISTER_MONTH (regs (snd (set_time t bus)) REGISTER_MONTH),
            WriteToMem ADDRESS REGISTER_DAY (regs (snd (set_time t bus)) REGISTER_DAY),
            ReadFromMem ADDRESS REGISTER_CONTROL_1 1,
            WriteToMem ADDRESS REGISTER_HOUR (regs (snd (set_time t bus)) REGISTER_HOUR),
            WriteToMem ADDRESS REGISTER_MINUTE (regs (snd (set_time t bus)) REGISTER_MINUTE),
            WriteToMem ADDRESS REGISTER_SECOND (regs (snd (set_time t bus)) REGISTER_SECOND)] \<and>
         fst (now (snd (set_time t bus))) =
           Inr [PInt y, PInt mo, PInt d, PInt h, PInt mi, PInt s, PInt 0, PInt 0]"
proof -
  have rb: "fst (now (snd (set_time t bus))) =
           Inr [PInt y, PInt mo, PInt d, PInt h, PInt mi, PInt s, PInt 0, PInt 0]"
    using assms by (rule now_after_set_time)
  show ?thesis
    unfolding set_time_eq [OF assms] using rb [unfolded set_time_eq [OF assms]]
    by simp
qed

theorem set_time_fields_witness:
  "fst (set_time [PInt 2024, PInt 2, PInt 29] blank_bus) = Inr () \<and>
   fst (now (snd (set_time [PInt 2024, PInt 2, PInt 29] blank_bus))) =
     Inr [PInt 2024, PInt 2, PInt 29, PInt 0, PInt 0, PInt 0, PInt 0, PInt 0]"
  using set_time_fields [of "[PInt 2024, PInt 2, PInt 29]" 2024 2 29 0 0 0 blank_bus]
  by simp

text \<open>
  C5. On any bus, after \<open>set_time((2015, 10, 21, 16, 29, 0))\<close> a call of \<open>now()\<close>
  returns the eight items \<open>(2015, 10, 21, 16, 29, 0, 0, 0)\<close>; the two trailing ones
  are 0.
\<close>

theorem set_time_then_now:
  "fst (set_time [PInt 2015, PInt 10, PInt 21, PInt 16, PInt 29, PInt 0] bus) = Inr () \<and>
   fst (now (snd (set_time [PInt 2015, PInt 10, PInt 21, PInt 16, PInt 29, PInt 0] bus))) =
     Inr [PInt 2015, PInt 10, PInt 21, PInt 16, PInt 29, PInt 0, PInt 0, PInt 0]"
proof -
  let ?t = "[PInt 2015, PInt 10, PInt 21, PInt 16, PInt 29, PInt 0]"
  have "fst (now (snd (set_time ?t bus))) =
          Inr [PInt 2015, PInt 10, PInt 21, PInt 16, PInt 29, PInt 0, PInt 0, PInt 0]"
    by (rule now_after_set_time) simp_all
  moreover have "fst (set_time ?t bus) = Inr ()"
    by (subst set_time_eq [of ?t 2015 10 21 16 29 0]) simp_all
  ultimately show ?thesis by simp
qed

end
